theory Spec2Isabelle
  imports Main "HOL-Library.Word" "HOL-Library.Signed_Division"
begin

unbundle bit_operations_syntax

section \<open>Two-button LED blinker: the kernel module as state-passing functions\<close>

text \<open>
  The module \<^verbatim>\<open>two_button_blink.c\<close> polls two push-buttons and toggles a LED. Its C
  \<^verbatim>\<open>int\<close> is a 32-bit word; the kernel is compiled with \<^verbatim>\<open>-fno-strict-overflow\<close>, so
  \<^verbatim>\<open>+=\<close> and \<^verbatim>\<open>-=\<close> on \<^verbatim>\<open>blink_freq\<close> wrap around, and \<open>sint\<close> reads the value.
  \<^verbatim>\<open>unsigned long\<close> (the type of \<^verbatim>\<open>jiffies\<close>) is 32 or 64 bits wide depending on the kernel,
  so its width is the type parameter \<open>'l\<close>. \<^verbatim>\<open>HZ\<close> comes from the kernel configuration and is
  a parameter \<open>hz\<close> of every function that uses it.
\<close>

subsection \<open>Constants of the source\<close>

definition GPFSEL1_OFFSET :: nat where "GPFSEL1_OFFSET = 0x04"
definition GPFSEL2_OFFSET :: nat where "GPFSEL2_OFFSET = 0x08"
definition GPSET0_OFFSET :: nat where "GPSET0_OFFSET = 0x1C"
definition GPCLR0_OFFSET :: nat where "GPCLR0_OFFSET = 0x28"
definition GPLEV0_OFFSET :: nat where "GPLEV0_OFFSET = 0x34"
definition GPPUD_OFFSET :: nat where "GPPUD_OFFSET = 0x94"
definition GPPUDCLK0_OFFSET :: nat where "GPPUDCLK0_OFFSET = 0x98"

definition GPIO_LED :: nat where "GPIO_LED = 18"
definition GPIO_BTN_INC :: nat where "GPIO_BTN_INC = 23"
definition GPIO_BTN_DEC :: nat where "GPIO_BTN_DEC = 24"

definition GPIO_FSEL_SHIFT :: "nat \<Rightarrow> nat" where
  "GPIO_FSEL_SHIFT pin = (pin mod 10) * 3"

text \<open>\<^verbatim>\<open>ENOMEM\<close> is 12 in the kernel's errno table.\<close>

definition ENOMEM :: "32 word" where "ENOMEM = 12"

subsection \<open>State\<close>

text \<open>
  What the module does to the outside world is kept as a trace, oldest effect first: register
  writes (value, offset from \<^verbatim>\<open>gpio_base\<close>), sleeps, delays, log lines (format string and
  arguments) and the release of the register mapping.
\<close>

datatype effect =
    Iowrite32 "32 word" nat
  | Msleep "32 word"
  | Ndelay nat
  | Pr_info string "32 word list"
  | Pr_err string
  | Iounmap

text \<open>
  A \<^verbatim>\<open>struct task_struct *\<close> as \<^verbatim>\<open>kthread_run\<close> returns it: a task, or an errno wrapped by
  \<^verbatim>\<open>ERR_PTR\<close>; \<open>Null\<close> is the value of the uninitialised global.
\<close>

datatype kptr = Null | Err_ptr "32 word" | Task nat

fun IS_ERR :: "kptr \<Rightarrow> bool" where
  "IS_ERR (Err_ptr e) = True"
| "IS_ERR p = False"

fun PTR_ERR :: "kptr \<Rightarrow> 32 word" where
  "PTR_ERR (Err_ptr e) = e"
| "PTR_ERR Null = 0"
| "PTR_ERR (Task p) = word_of_nat p"

text \<open>
  The globals of the file, the liveness of the register mapping (\<open>iomem_mapped\<close>, a resource of
  the kernel that \<^verbatim>\<open>ioremap\<close> creates and \<^verbatim>\<open>iounmap\<close> releases) and the trace.
\<close>

record (overloaded) 'l kstate =
  gpio_base :: "nat option"
  poll_thread :: kptr
  running :: bool
  blink_freq :: "32 word"
  last_inc_state :: "32 word"
  last_dec_state :: "32 word"
  inc_press_jiffies :: "'l word"
  dec_press_jiffies :: "'l word"
  iomem_mapped :: bool
  trace :: "effect list"

text \<open>The initialisers of the globals, as the module is loaded.\<close>

definition module_globals :: "'l::len kstate" where
  "module_globals =
     \<lparr>gpio_base = None, poll_thread = Null, running = True, blink_freq = 2,
      last_inc_state = 1, last_dec_state = 1,
      inc_press_jiffies = 0, dec_press_jiffies = 0,
      iomem_mapped = False, trace = []\<rparr>"

definition emit :: "effect \<Rightarrow> 'l kstate \<Rightarrow> 'l kstate" where
  "emit e s = s\<lparr>trace := trace s @ [e]\<rparr>"

subsection \<open>GPIO helpers\<close>

definition gpio_set_pin :: "nat \<Rightarrow> 'l kstate \<Rightarrow> 'l kstate" where
  "gpio_set_pin pin s = emit (Iowrite32 (push_bit pin 1) GPSET0_OFFSET) s"

definition gpio_clear_pin :: "nat \<Rightarrow> 'l kstate \<Rightarrow> 'l kstate" where
  "gpio_clear_pin pin s = emit (Iowrite32 (push_bit pin 1) GPCLR0_OFFSET) s"

text \<open>
  \<^verbatim>\<open>gpio_read_pin\<close>: \<open>val\<close> is what \<^verbatim>\<open>ioread32(gpio_base + GPLEV0_OFFSET)\<close> returned.
\<close>

definition gpio_read_pin :: "32 word \<Rightarrow> nat \<Rightarrow> 32 word" where
  "gpio_read_pin val pin = (if val AND push_bit pin 1 \<noteq> 0 then 1 else 0)"

subsection \<open>The polling thread\<close>

text \<open>
  What one loop iteration reads from the hardware and the clock: the level register at each of
  the two \<^verbatim>\<open>gpio_read_pin\<close> calls and \<^verbatim>\<open>jiffies\<close> in each button block.
\<close>

record (overloaded) 'l sample =
  gplev_inc :: "32 word"
  jiffies_inc :: "'l word"
  gplev_dec :: "32 word"
  jiffies_dec :: "'l word"

text \<open>
  The increment block after its \<^verbatim>\<open>gpio_read_pin\<close>: \<open>curr_inc\<close> is the level read, \<open>jiffies\<close> the
  tick counter when the block reads it.
\<close>

definition check_inc :: "'l::len word \<Rightarrow> 32 word \<Rightarrow> 'l word \<Rightarrow> 'l kstate \<Rightarrow> 'l kstate" where
  "check_inc hz curr_inc jiffies s =
     (if curr_inc \<noteq> last_inc_state s then
        (let s1 =
           (if curr_inc = 0 then s\<lparr>inc_press_jiffies := jiffies\<rparr>
            else
              (let diff = jiffies - inc_press_jiffies s in
               if diff < hz then
                 (let s2 = s\<lparr>blink_freq := blink_freq s + 5\<rparr> in
                  emit (Pr_info ''Increment button pressed: freq => %d'' [blink_freq s2]) s2)
               else s))
         in s1\<lparr>last_inc_state := curr_inc\<rparr>)
      else s)"

definition check_dec :: "'l::len word \<Rightarrow> 32 word \<Rightarrow> 'l word \<Rightarrow> 'l kstate \<Rightarrow> 'l kstate" where
  "check_dec hz curr_dec jiffies s =
     (if curr_dec \<noteq> last_dec_state s then
        (let s1 =
           (if curr_dec = 0 then s\<lparr>dec_press_jiffies := jiffies\<rparr>
            else
              (let diff = jiffies - dec_press_jiffies s in
               if diff < hz then
                 (let s2 = s\<lparr>blink_freq := blink_freq s - 5\<rparr>;
                      s3 = (if sint (blink_freq s2) < 1 then s2\<lparr>blink_freq := 1\<rparr> else s2)
                  in emit (Pr_info ''Decrement button pressed: freq => %d'' [blink_freq s3]) s3)
               else s))
         in s1\<lparr>last_dec_state := curr_dec\<rparr>)
      else s)"

text \<open>
  Division of two \<^verbatim>\<open>int\<close>s truncates towards zero; a zero divisor traps, and so does the one
  quotient that does not fit.
\<close>

datatype fault = Div_by_zero | Div_overflow

definition c_div :: "32 word \<Rightarrow> 32 word \<Rightarrow> fault + 32 word" where
  "c_div a b =
     (if b = 0 then Inl Div_by_zero
      else if sint a = - (2 ^ 31) \<and> sint b = - 1 then Inl Div_overflow
      else Inr (word_of_int (sint a sdiv sint b)))"

text \<open>The argument of \<^verbatim>\<open>msleep\<close>: \<^verbatim>\<open>(1000 / blink_freq) / 2\<close>.\<close>

definition half_period :: "32 word \<Rightarrow> fault + 32 word" where
  "half_period f =
     (case c_div 1000 f of
        Inl e \<Rightarrow> Inl e
      | Inr q \<Rightarrow> c_div q 2)"

text \<open>The end of the loop body: the re-clamp of the frequency and the sleep.\<close>

definition sleep_block :: "'l kstate \<Rightarrow> fault + 'l kstate" where
  "sleep_block s =
     (let s1 = (if sint (blink_freq s) < 1 then s\<lparr>blink_freq := 1\<rparr> else s) in
      case half_period (blink_freq s1) of
        Inl e \<Rightarrow> Inl e
      | Inr ms \<Rightarrow> Inr (emit (Msleep ms) s1))"

text \<open>The LED block: \<open>led_on\<close> is the local variable of \<^verbatim>\<open>poll_thread_fn\<close>.\<close>

definition blink_block :: "bool \<Rightarrow> 'l kstate \<Rightarrow> bool \<times> 'l kstate" where
  "blink_block led_on s =
     (if led_on then (False, gpio_clear_pin GPIO_LED s)
      else (True, gpio_set_pin GPIO_LED s))"

text \<open>The two button blocks, one after the other.\<close>

definition poll_buttons :: "'l::len word \<Rightarrow> 'l sample \<Rightarrow> 'l kstate \<Rightarrow> 'l kstate" where
  "poll_buttons hz smp s =
     (let s1 = check_inc hz (gpio_read_pin (gplev_inc smp) GPIO_BTN_INC) (jiffies_inc smp) s
      in check_dec hz (gpio_read_pin (gplev_dec smp) GPIO_BTN_DEC) (jiffies_dec smp) s1)"

definition loop_body ::
  "'l::len word \<Rightarrow> 'l sample \<Rightarrow> bool \<Rightarrow> 'l kstate \<Rightarrow> fault + (bool \<times> 'l kstate)" where
  "loop_body hz smp led_on s =
     (let s2 = poll_buttons hz smp s;
          (led_on', s3) = blink_block led_on s2
      in case sleep_block s3 of
           Inl e \<Rightarrow> Inl e
         | Inr s4 \<Rightarrow> Inr (led_on', s4))"

text \<open>
  The \<^verbatim>\<open>while\<close> loop. Each element of the list is what one evaluation of the loop condition and
  the iteration after it observe: the value of \<^verbatim>\<open>kthread_should_stop()\<close> and the sample. The
  loop either returns, or traps in a division, or is still running when the observations end.
\<close>

datatype 'a run = Returned 'a | Pending 'a | Trapped fault

fun poll_thread_loop ::
  "'l::len word \<Rightarrow> (bool \<times> 'l sample) list \<Rightarrow> bool \<Rightarrow> 'l kstate \<Rightarrow> (bool \<times> 'l kstate) run" where
  "poll_thread_loop hz [] led_on s = Pending (led_on, s)"
| "poll_thread_loop hz ((should_stop, smp) # obs) led_on s =
     (if \<not> should_stop \<and> running s then
        (case loop_body hz smp led_on s of
           Inl e \<Rightarrow> Trapped e
         | Inr (led_on', s') \<Rightarrow> poll_thread_loop hz obs led_on' s')
      else Returned (led_on, s))"

definition poll_thread_fn ::
  "'l::len word \<Rightarrow> (bool \<times> 'l sample) list \<Rightarrow> 'l kstate \<Rightarrow> (bool \<times> 'l kstate) run" where
  "poll_thread_fn hz obs s = poll_thread_loop hz obs False s"

text \<open>The globals a run has reached, when it has not trapped.\<close>

fun run_state :: "(bool \<times> 'l kstate) run \<Rightarrow> 'l kstate option" where
  "run_state (Returned (led_on, s)) = Some s"
| "run_state (Pending (led_on, s)) = Some s"
| "run_state (Trapped e) = None"

subsection \<open>Module init and exit\<close>

text \<open>
  What \<^verbatim>\<open>two_button_init\<close> gets from the kernel and the hardware: the result of
  \<^verbatim>\<open>ioremap\<close> (\<open>None\<close> is \<^verbatim>\<open>NULL\<close>), the two function-select registers as read, and the result
  of \<^verbatim>\<open>kthread_run\<close>.
\<close>

record init_env =
  ioremap_result :: "nat option"
  gpfsel1_val :: "32 word"
  gpfsel2_val :: "32 word"
  kthread_run_result :: kptr

definition iounmap :: "'l kstate \<Rightarrow> 'l kstate" where
  "iounmap s = emit Iounmap (s\<lparr>iomem_mapped := False\<rparr>)"

definition two_button_init :: "init_env \<Rightarrow> 'l kstate \<Rightarrow> 32 word \<times> 'l kstate" where
  "two_button_init env s =
     (let s0 = emit (Pr_info ''two_button_blink: loading...'' []) s;
          s1 = s0\<lparr>gpio_base := ioremap_result env, iomem_mapped := (ioremap_result env \<noteq> None)\<rparr>
      in if gpio_base s1 = None then (- ENOMEM, emit (Pr_err ''Failed to ioremap'') s1)
         else
           (let val1 = gpfsel1_val env;
                val1 = val1 AND NOT (push_bit (GPIO_FSEL_SHIFT GPIO_LED) 7);
                val1 = val1 OR push_bit (GPIO_FSEL_SHIFT GPIO_LED) 1;
                s2 = emit (Iowrite32 val1 GPFSEL1_OFFSET) s1;
                val2 = gpfsel2_val env;
                val2 = val2 AND NOT (push_bit (GPIO_FSEL_SHIFT GPIO_BTN_INC) 7);
                val2 = val2 AND NOT (push_bit (GPIO_FSEL_SHIFT GPIO_BTN_DEC) 7);
                s3 = emit (Iowrite32 val2 GPFSEL2_OFFSET) s2;
                s4 = emit (Iowrite32 2 GPPUD_OFFSET) s3;
                s5 = emit (Ndelay 150) s4;
                s6 = emit (Iowrite32 (push_bit GPIO_BTN_INC 1 OR push_bit GPIO_BTN_DEC 1)
                             GPPUDCLK0_OFFSET) s5;
                s7 = emit (Ndelay 150) s6;
                s8 = emit (Iowrite32 0 GPPUD_OFFSET) s7;
                s9 = emit (Iowrite32 0 GPPUDCLK0_OFFSET) s8;
                s10 = s9\<lparr>running := True\<rparr>;
                s11 = s10\<lparr>poll_thread := kthread_run_result env\<rparr>
            in if IS_ERR (poll_thread s11) then
                 (PTR_ERR (poll_thread s11),
                  iounmap (emit (Pr_err ''Failed to create poll_thread'') s11))
               else
                 (0, emit (Pr_info ''two_button_blink: loaded (freq=%d). Press buttons on GPIO23/24.''
                             [blink_freq s11]) s11)))"

text \<open>
  \<^verbatim>\<open>kthread_stop\<close> raises the should-stop flag, wakes the thread and waits until
  \<^verbatim>\<open>poll_thread_fn\<close> has returned. When it is called the thread is either at its loop condition
  (\<open>inflight = None\<close>) or inside an iteration it began with some sample (\<open>inflight = Some smp\<close>),
  which it completes: the body never reads \<^verbatim>\<open>running\<close> or the flag. After that the thread
  evaluates its loop condition with the flag raised; \<open>nxt\<close> is the sample a further iteration would
  read. \<open>led_on\<close> is the thread's local variable.
\<close>

definition kthread_stop ::
  "'l::len word \<Rightarrow> 'l sample option \<Rightarrow> 'l sample \<Rightarrow> bool \<Rightarrow> 'l kstate \<Rightarrow> (bool \<times> 'l kstate) run" where
  "kthread_stop hz inflight nxt led_on s =
     (case inflight of
        None \<Rightarrow> poll_thread_loop hz [(True, nxt)] led_on s
      | Some smp \<Rightarrow>
          (case loop_body hz smp led_on s of
             Inl e \<Rightarrow> Trapped e
           | Inr (led_on', s') \<Rightarrow> poll_thread_loop hz [(True, nxt)] led_on' s'))"

definition two_button_exit ::
  "'l::len word \<Rightarrow> 'l sample option \<Rightarrow> 'l sample \<Rightarrow> bool \<Rightarrow> 'l kstate \<Rightarrow> 'l kstate run" where
  "two_button_exit hz inflight nxt led_on s =
     (let s1 = s\<lparr>running := False\<rparr> in
      case (if poll_thread s1 \<noteq> Null then kthread_stop hz inflight nxt led_on s1
            else Returned (led_on, s1)) of
        Trapped e \<Rightarrow> Trapped e
      | Pending (l, s2) \<Rightarrow> Pending s2
      | Returned (l, s2) \<Rightarrow>
          (let s3 = gpio_clear_pin GPIO_LED s2;
               s4 = (if gpio_base s3 \<noteq> None then (iounmap s3)\<lparr>gpio_base := None\<rparr> else s3)
           in Returned (emit (Pr_info ''two_button_blink: unloaded.'' []) s4)))"

subsection \<open>Reading the trace\<close>

text \<open>
  The LED follows the last write to the set or clear register; it is lit when that write set
  its bit. Every loop iteration sleeps once, so the sleeps of a trace count its iterations.
\<close>

fun is_pin_write :: "effect \<Rightarrow> bool" where
  "is_pin_write (Iowrite32 v off) = (off = GPSET0_OFFSET \<or> off = GPCLR0_OFFSET)"
| "is_pin_write e = False"

definition pin_writes :: "effect list \<Rightarrow> effect list" where
  "pin_writes tr = filter is_pin_write tr"

definition led_set :: effect where
  "led_set = Iowrite32 (push_bit GPIO_LED 1) GPSET0_OFFSET"

definition led_clear :: effect where
  "led_clear = Iowrite32 (push_bit GPIO_LED 1) GPCLR0_OFFSET"

definition led_lit :: "effect list \<Rightarrow> bool" where
  "led_lit tr = (case rev (pin_writes tr) of [] \<Rightarrow> False | e # es \<Rightarrow> e = led_set)"

fun is_msleep :: "effect \<Rightarrow> bool" where
  "is_msleep (Msleep ms) = True"
| "is_msleep e = False"

definition iterations :: "effect list \<Rightarrow> nat" where
  "iterations tr = length (filter is_msleep tr)"

subsection \<open>Sample inputs\<close>

text \<open>
  Both buttons at rest, and the increment button down while the decrement button is at rest.
  A short press of the increment button is two observations of a running loop: the button is
  down in one iteration and up again in the next, within the same tick.
\<close>

definition inc_down :: "'l::len sample" where
  "inc_down = \<lparr>gplev_inc = 0, jiffies_inc = 0, gplev_dec = push_bit GPIO_BTN_DEC 1, jiffies_dec = 0\<rparr>"

definition at_rest :: "'l::len sample" where
  "at_rest = \<lparr>gplev_inc = push_bit GPIO_BTN_INC 1, jiffies_inc = 0,
               gplev_dec = push_bit GPIO_BTN_DEC 1, jiffies_dec = 0\<rparr>"

definition inc_presses :: "nat \<Rightarrow> (bool \<times> 'l::len sample) list" where
  "inc_presses n = concat (replicate n [(False, inc_down), (False, at_rest)])"

section \<open>Properties\<close>

subsection \<open>Arithmetic of the delay\<close>

lemma sint_word32:
  "- (2 ^ 31) \<le> k \<Longrightarrow> k < 2 ^ 31 \<Longrightarrow> sint (word_of_int k :: 32 word) = k"
  by (simp add: sint_sbintrunc' signed_take_bit_int_eq_self)

lemma sdiv_nonneg: "0 \<le> a \<Longrightarrow> 0 < b \<Longrightarrow> (a::int) sdiv b = a div b"
  by (simp add: signed_divide_int_def sgn_if)

lemma c_div_1000:
  assumes "1 \<le> sint f"
  shows "c_div 1000 f = Inr (word_of_int (1000 div sint f))"
proof -
  have "f \<noteq> 0" using assms by auto
  moreover have "sint (1000 :: 32 word) sdiv sint f = 1000 div sint f"
    using assms by (simp add: sdiv_nonneg)
  ultimately show ?thesis by (simp add: c_div_def)
qed

lemma quot_1000_bounds:
  assumes "1 \<le> (k::int)"
  shows "0 \<le> 1000 div k" and "1000 div k \<le> 1000"
proof -
  show "0 \<le> 1000 div k" using assms by (simp add: pos_imp_zdiv_nonneg_iff)
  show "1000 div k \<le> 1000" using assms
    by (metis div_by_1 zdiv_mono2 zero_less_one zero_le_numeral)
qed

lemma sint_quot_1000:
  assumes "1 \<le> (k::int)"
  shows "sint (word_of_int (1000 div k) :: 32 word) = 1000 div k"
  using quot_1000_bounds [OF assms] by (simp add: sint_word32)

lemma c_div_2:
  assumes "0 \<le> sint q"
  shows "c_div q 2 = Inr (word_of_int (sint q div 2))"
  using assms by (simp add: c_div_def sdiv_nonneg)

lemma half_period_pos:
  assumes "1 \<le> sint f"
  shows "half_period f = Inr (word_of_int ((1000 div sint f) div 2))"
  using assms quot_1000_bounds(1) [OF assms]
  by (simp add: half_period_def c_div_1000 c_div_2 sint_quot_1000)

lemma sint_half_period:
  assumes "1 \<le> (k::int)"
  shows "sint (word_of_int ((1000 div k) div 2) :: 32 word) = (1000 div k) div 2"
proof -
  have "0 \<le> (1000 div k) div 2" and "(1000 div k) div 2 \<le> 1000"
    using quot_1000_bounds [OF assms] by simp_all
  then show ?thesis by (simp add: sint_word32)
qed

subsection \<open>The blocks of the loop body\<close>

lemma emit_sel [simp]:
  "gpio_base (emit e s) = gpio_base s"
  "poll_thread (emit e s) = poll_thread s"
  "running (emit e s) = running s"
  "blink_freq (emit e s) = blink_freq s"
  "last_inc_state (emit e s) = last_inc_state s"
  "last_dec_state (emit e s) = last_dec_state s"
  "inc_press_jiffies (emit e s) = inc_press_jiffies s"
  "dec_press_jiffies (emit e s) = dec_press_jiffies s"
  "iomem_mapped (emit e s) = iomem_mapped s"
  "trace (emit e s) = trace s @ [e]"
  by (simp_all add: emit_def)

lemma sleep_block_eq:
  "sleep_block s =
     Inr (emit (Msleep (word_of_int ((1000 div max 1 (sint (blink_freq s))) div 2)))
            (s\<lparr>blink_freq := (if sint (blink_freq s) < 1 then 1 else blink_freq s)\<rparr>))"
proof (cases "sint (blink_freq s) < 1")
  case True
  have "half_period 1 = Inr (word_of_int ((1000 div 1) div 2))"
    using half_period_pos [of 1] by simp
  with True show ?thesis by (simp add: sleep_block_def max_def)
next
  case False
  then have "1 \<le> sint (blink_freq s)" by simp
  from half_period_pos [OF this] False show ?thesis
    by (simp add: sleep_block_def max_def)
qed

lemma check_inc_last: "last_inc_state (check_inc hz c j s) = c"
  by (simp add: check_inc_def Let_def)

lemma check_dec_last: "last_dec_state (check_dec hz c j s) = c"
  by (simp add: check_dec_def Let_def)

lemma check_inc_frame:
  "last_dec_state (check_inc hz c j s) = last_dec_state s"
  "dec_press_jiffies (check_inc hz c j s) = dec_press_jiffies s"
  "running (check_inc hz c j s) = running s"
  "gpio_base (check_inc hz c j s) = gpio_base s"
  "poll_thread (check_inc hz c j s) = poll_thread s"
  "iomem_mapped (check_inc hz c j s) = iomem_mapped s"
  by (simp_all add: check_inc_def Let_def)

lemma check_dec_frame:
  "last_inc_state (check_dec hz c j s) = last_inc_state s"
  "inc_press_jiffies (check_dec hz c j s) = inc_press_jiffies s"
  "running (check_dec hz c j s) = running s"
  "gpio_base (check_dec hz c j s) = gpio_base s"
  "poll_thread (check_dec hz c j s) = poll_thread s"
  "iomem_mapped (check_dec hz c j s) = iomem_mapped s"
  by (simp_all add: check_dec_def Let_def)

lemma check_inc_pin_writes: "pin_writes (trace (check_inc hz c j s)) = pin_writes (trace s)"
  by (simp add: check_inc_def Let_def pin_writes_def)

lemma check_dec_pin_writes: "pin_writes (trace (check_dec hz c j s)) = pin_writes (trace s)"
  by (simp add: check_dec_def Let_def pin_writes_def)

lemma check_inc_iterations: "iterations (trace (check_inc hz c j s)) = iterations (trace s)"
  by (simp add: check_inc_def Let_def iterations_def)

lemma check_dec_iterations: "iterations (trace (check_dec hz c j s)) = iterations (trace s)"
  by (simp add: check_dec_def Let_def iterations_def)

lemma poll_buttons_sel:
  "last_inc_state (poll_buttons hz smp s) = gpio_read_pin (gplev_inc smp) GPIO_BTN_INC"
  "last_dec_state (poll_buttons hz smp s) = gpio_read_pin (gplev_dec smp) GPIO_BTN_DEC"
  "running (poll_buttons hz smp s) = running s"
  "gpio_base (poll_buttons hz smp s) = gpio_base s"
  "poll_thread (poll_buttons hz smp s) = poll_thread s"
  "iomem_mapped (poll_buttons hz smp s) = iomem_mapped s"
  "pin_writes (trace (poll_buttons hz smp s)) = pin_writes (trace s)"
  "iterations (trace (poll_buttons hz smp s)) = iterations (trace s)"
  by (simp_all add: poll_buttons_def Let_def check_inc_last check_dec_last check_inc_frame
      check_dec_frame check_inc_pin_writes check_dec_pin_writes check_inc_iterations
      check_dec_iterations)

lemma loop_body_eq:
  "loop_body hz smp led s =
     Inr (\<not> led,
          emit (Msleep (word_of_int
                  ((1000 div max 1 (sint (blink_freq (poll_buttons hz smp s)))) div 2)))
            ((emit (if led then led_clear else led_set) (poll_buttons hz smp s))
               \<lparr>blink_freq := (if sint (blink_freq (poll_buttons hz smp s)) < 1 then 1
                               else blink_freq (poll_buttons hz smp s))\<rparr>))"
  by (simp add: loop_body_def blink_block_def Let_def sleep_block_eq gpio_set_pin_def
      gpio_clear_pin_def led_set_def led_clear_def)

lemma loop_body_total:
  obtains s' where "loop_body hz smp led s = Inr (\<not> led, s')"
    and "1 \<le> sint (blink_freq s')"
    and "running s' = running s"
    and "last_inc_state s' = gpio_read_pin (gplev_inc smp) GPIO_BTN_INC"
    and "last_dec_state s' = gpio_read_pin (gplev_dec smp) GPIO_BTN_DEC"
    and "pin_writes (trace s') = pin_writes (trace s) @ [if led then led_clear else led_set]"
    and "iterations (trace s') = Suc (iterations (trace s))"
    and "gpio_base s' = gpio_base s" and "poll_thread s' = poll_thread s"
    and "iomem_mapped s' = iomem_mapped s"
    and "last (trace s') = Msleep (word_of_int ((1000 div sint (blink_freq s')) div 2))"
proof -
  let ?s' = "emit (Msleep (word_of_int
                  ((1000 div max 1 (sint (blink_freq (poll_buttons hz smp s)))) div 2)))
            ((emit (if led then led_clear else led_set) (poll_buttons hz smp s))
               \<lparr>blink_freq := (if sint (blink_freq (poll_buttons hz smp s)) < 1 then 1
                               else blink_freq (poll_buttons hz smp s))\<rparr>)"
  have "loop_body hz smp led s = Inr (\<not> led, ?s')" by (rule loop_body_eq)
  moreover have "1 \<le> sint (blink_freq ?s')" by simp
  moreover have "running ?s' = running s" by (simp add: poll_buttons_sel)
  moreover have "last_inc_state ?s' = gpio_read_pin (gplev_inc smp) GPIO_BTN_INC"
    by (simp add: poll_buttons_sel)
  moreover have "last_dec_state ?s' = gpio_read_pin (gplev_dec smp) GPIO_BTN_DEC"
    by (simp add: poll_buttons_sel)
  moreover have "pin_writes (trace ?s') = pin_writes (trace s) @ [if led then led_clear else led_set]"
    using poll_buttons_sel(7) [of hz smp s]
    by (simp add: pin_writes_def led_set_def led_clear_def)
  moreover have "iterations (trace ?s') = Suc (iterations (trace s))"
    using poll_buttons_sel(8) [of hz smp s]
    by (simp add: iterations_def led_set_def led_clear_def)
  moreover have "gpio_base ?s' = gpio_base s" "poll_thread ?s' = poll_thread s"
    "iomem_mapped ?s' = iomem_mapped s"
    by (simp_all add: poll_buttons_sel)
  moreover have "last (trace ?s') = Msleep (word_of_int ((1000 div sint (blink_freq ?s')) div 2))"
    by (simp add: max_def)
  ultimately show thesis by (rule that)
qed


subsection \<open>The loop\<close>

lemmas model_consts = GPSET0_OFFSET_def GPCLR0_OFFSET_def GPIO_LED_def GPIO_BTN_INC_def
  GPIO_BTN_DEC_def

lemma read_pins [simp]:
  "gpio_read_pin (gplev_inc inc_down) GPIO_BTN_INC = 0"
  "gpio_read_pin (gplev_dec inc_down) GPIO_BTN_DEC = 1"
  "gpio_read_pin (gplev_inc at_rest) GPIO_BTN_INC = 1"
  "gpio_read_pin (gplev_dec at_rest) GPIO_BTN_DEC = 1"
  by (simp_all add: gpio_read_pin_def inc_down_def at_rest_def model_consts)

lemma poll_thread_loop_running:
  assumes "\<forall>ob \<in> set obs. \<not> fst ob" and "running s"
  shows "\<exists>s'. poll_thread_loop hz obs led s = Pending (led \<noteq> odd (length obs), s') \<and>
           running s' \<and>
           pin_writes (trace s') =
             pin_writes (trace s) @
               map (\<lambda>i. if even i \<noteq> led then led_set else led_clear) [0..<length obs] \<and>
           iterations (trace s') = iterations (trace s) + length obs \<and>
           (obs = [] \<or>
            1 \<le> sint (blink_freq s') \<and>
            last (trace s') = Msleep (word_of_int ((1000 div sint (blink_freq s')) div 2)))"
  using assms
proof (induction obs arbitrary: led s)
  case Nil
  then show ?case by simp
next
  case (Cons ob obs)
  obtain stop smp where ob: "ob = (stop, smp)" by (cases ob)
  with Cons.prems have ns: "\<not> stop" by simp
  obtain s1 where body: "loop_body hz smp led s = Inr (\<not> led, s1)"
    and f1: "1 \<le> sint (blink_freq s1)"
    and r1: "running s1 = running s"
    and w1: "pin_writes (trace s1) = pin_writes (trace s) @ [if led then led_clear else led_set]"
    and i1: "iterations (trace s1) = Suc (iterations (trace s))"
    and m1: "last (trace s1) = Msleep (word_of_int ((1000 div sint (blink_freq s1)) div 2))"
    by (rule loop_body_total)
  from Cons.prems have "\<forall>ob \<in> set obs. \<not> fst ob" by simp
  moreover from r1 Cons.prems have "running s1" by simp
  ultimately obtain s' where
    run: "poll_thread_loop hz obs (\<not> led) s1 = Pending ((\<not> led) \<noteq> odd (length obs), s')"
    and r': "running s'"
    and w': "pin_writes (trace s') =
             pin_writes (trace s1) @
               map (\<lambda>i. if even i \<noteq> (\<not> led) then led_set else led_clear) [0..<length obs]"
    and i': "iterations (trace s') = iterations (trace s1) + length obs"
    and f': "obs = [] \<or>
            1 \<le> sint (blink_freq s') \<and>
            last (trace s') = Msleep (word_of_int ((1000 div sint (blink_freq s')) div 2))"
    using Cons.IH [of s1 "\<not> led"] by blast
  have "poll_thread_loop hz (ob # obs) led s = Pending (led \<noteq> odd (length (ob # obs)), s')"
    using ob ns Cons.prems(2) body run by auto
  moreover have "pin_writes (trace s') =
      pin_writes (trace s) @
        map (\<lambda>i. if even i \<noteq> led then led_set else led_clear) [0..<length (ob # obs)]"
    using w' w1 by (simp add: map_upt_Suc del: upt_Suc)
  moreover have "iterations (trace s') = iterations (trace s) + length (ob # obs)"
    using i' i1 by simp
  moreover have "1 \<le> sint (blink_freq s') \<and>
            last (trace s') = Msleep (word_of_int ((1000 div sint (blink_freq s')) div 2))"
  proof (cases obs)
    case Nil
    with run have "s' = s1" by simp
    with f1 m1 show ?thesis by simp
  next
    case (Cons a list)
    with f' show ?thesis by simp
  qed
  ultimately show ?case using r' by blast
qed

lemma led_lit_alternating:
  assumes "pin_writes tr = map (\<lambda>i. if even i then led_set else led_clear) [0..<n]"
  shows "led_lit tr = odd n"
proof (cases n)
  case 0
  with assms show ?thesis by (simp add: led_lit_def)
next
  case (Suc m)
  have "led_set \<noteq> led_clear" by (simp add: led_set_def led_clear_def model_consts)
  moreover have "is_pin_write led_set" "is_pin_write led_clear"
    by (simp_all add: led_set_def led_clear_def)
  ultimately show ?thesis using Suc assms
    by (simp add: led_lit_def)
qed

lemma sint_plus5:
  assumes "sint (f :: 32 word) \<le> 2147483642"
  shows "sint (f + 5) = sint f + 5"
proof -
  have "- (2 ^ 31) \<le> sint f" using sint_ge [of f] by simp
  then have "sint (word_of_int (sint f + 5) :: 32 word) = sint f + 5"
    using assms by (intro sint_word32) simp_all
  then show ?thesis by simp
qed

lemma sint_minus5:
  assumes "- 2147483643 \<le> sint (f :: 32 word)"
  shows "sint (f - 5) = sint f - 5"
proof -
  have "sint f < 2 ^ 31" using sint_lt [of f] by simp
  then have "sint (word_of_int (sint f - 5) :: 32 word) = sint f - 5"
    using assms by (intro sint_word32) simp_all
  then show ?thesis by simp
qed

lemma elapsed_ticks:
  fixes hz j0 :: "'l::len word"
  assumes "e < 2 ^ LENGTH('l)"
  shows "((j0 + word_of_nat e) - j0 < hz) = (e < unat hz)"
proof -
  have "unat (word_of_nat e :: 'l word) = e"
    using assms by (simp add: unat_of_nat)
  then show ?thesis by (simp add: word_less_nat_alt)
qed

lemma check_inc_freq:
  "blink_freq (check_inc hz c j s) =
     (if c \<noteq> last_inc_state s \<and> c \<noteq> 0 \<and> j - inc_press_jiffies s < hz
      then blink_freq s + 5 else blink_freq s)"
  by (simp add: check_inc_def Let_def)

lemma check_dec_freq:
  "blink_freq (check_dec hz c j s) =
     (if c \<noteq> last_dec_state s \<and> c \<noteq> 0 \<and> j - dec_press_jiffies s < hz
      then (if sint (blink_freq s - 5) < 1 then 1 else blink_freq s - 5) else blink_freq s)"
  by (simp add: check_dec_def Let_def)

lemma check_inc_press:
  "inc_press_jiffies (check_inc hz c j s) =
     (if c \<noteq> last_inc_state s \<and> c = 0 then j else inc_press_jiffies s)"
  by (simp add: check_inc_def Let_def)

lemma check_dec_press:
  "dec_press_jiffies (check_dec hz c j s) =
     (if c \<noteq> last_dec_state s \<and> c = 0 then j else dec_press_jiffies s)"
  by (simp add: check_dec_def Let_def)

lemma sample_ticks [simp]:
  "jiffies_inc inc_down = 0" "jiffies_dec inc_down = 0"
  "jiffies_inc at_rest = 0" "jiffies_dec at_rest = 0"
  by (simp_all add: inc_down_def at_rest_def)

lemma press_cycle:
  fixes hz :: "'l::len word"
  assumes "running s" "last_inc_state s = 1" "last_dec_state s = 1"
    and "1 \<le> sint (blink_freq s)" "sint (blink_freq s) \<le> 2147483642" "0 < hz"
  shows "\<exists>s'. poll_thread_loop hz ((False, inc_down) # (False, at_rest) # rest) led s =
               poll_thread_loop hz rest led s' \<and>
           running s' \<and> last_inc_state s' = 1 \<and> last_dec_state s' = 1 \<and>
           blink_freq s' = blink_freq s + 5"
proof -
  obtain s1 where b1: "loop_body hz inc_down led s = Inr (\<not> led, s1)"
    and s1: "s1 = emit (Msleep (word_of_int
                  ((1000 div max 1 (sint (blink_freq (poll_buttons hz inc_down s)))) div 2)))
            ((emit (if led then led_clear else led_set) (poll_buttons hz inc_down s))
               \<lparr>blink_freq := (if sint (blink_freq (poll_buttons hz inc_down s)) < 1 then 1
                               else blink_freq (poll_buttons hz inc_down s))\<rparr>)"
    using loop_body_eq [of hz inc_down led s] by blast
  have p1: "blink_freq (poll_buttons hz inc_down s) = blink_freq s"
    using assms by (simp add: poll_buttons_def check_inc_freq check_dec_freq check_inc_frame)
  have j1: "inc_press_jiffies (poll_buttons hz inc_down s) = 0"
    using assms
    by (simp add: poll_buttons_def check_inc_press check_dec_frame)
  have f1: "blink_freq s1 = blink_freq s" using assms p1 by (simp add: s1)
  have r1: "running s1" using assms by (simp add: s1 poll_buttons_sel)
  have l1: "last_inc_state s1 = 0" "last_dec_state s1 = 1"
    by (simp_all add: s1 poll_buttons_sel)
  have i1: "inc_press_jiffies s1 = 0" using j1 by (simp add: s1)
  obtain s2 where b2: "loop_body hz at_rest (\<not> led) s1 = Inr (led, s2)"
    and s2: "s2 = emit (Msleep (word_of_int
                  ((1000 div max 1 (sint (blink_freq (poll_buttons hz at_rest s1)))) div 2)))
            ((emit (if \<not> led then led_clear else led_set) (poll_buttons hz at_rest s1))
               \<lparr>blink_freq := (if sint (blink_freq (poll_buttons hz at_rest s1)) < 1 then 1
                               else blink_freq (poll_buttons hz at_rest s1))\<rparr>)"
    using loop_body_eq [of hz at_rest "\<not> led" s1] by simp
  have p2: "blink_freq (poll_buttons hz at_rest s1) = blink_freq s + 5"
    using assms f1 l1 i1
    by (simp add: poll_buttons_def check_inc_freq check_dec_freq check_inc_frame)
  have "1 \<le> sint (blink_freq s + 5)"
    using sint_plus5 [OF assms(5)] assms(4) by simp
  then have f2: "blink_freq s2 = blink_freq s + 5" using p2 by (simp add: s2)
  have r2: "running s2" using r1 by (simp add: s2 poll_buttons_sel)
  have l2: "last_inc_state s2 = 1" "last_dec_state s2 = 1"
    by (simp_all add: s2 poll_buttons_sel)
  have "poll_thread_loop hz ((False, inc_down) # (False, at_rest) # rest) led s =
               poll_thread_loop hz rest led s2"
    using assms(1) b1 r1 b2 by simp
  then show ?thesis using r2 l2 f2 by blast
qed

lemma inc_presses_Suc:
  "inc_presses (Suc n) = (False, inc_down) # (False, at_rest) # inc_presses n"
  by (simp add: inc_presses_def)

lemma inc_presses_run:
  fixes hz :: "'l::len word"
  assumes "running s" "last_inc_state s = 1" "last_dec_state s = 1"
    and "1 \<le> sint (blink_freq s)" "sint (blink_freq s) + 5 * int n \<le> 2147483647" "0 < hz"
  shows "\<exists>s'. poll_thread_loop hz (inc_presses n @ rest) led s =
               poll_thread_loop hz rest led s' \<and>
           running s' \<and> last_inc_state s' = 1 \<and> last_dec_state s' = 1 \<and>
           blink_freq s' = blink_freq s + 5 * word_of_nat n"
  using assms
proof (induction n arbitrary: s)
  case 0
  then show ?case by (intro exI [of _ s]) (simp add: inc_presses_def)
next
  case (Suc n)
  from Suc.prems have le: "sint (blink_freq s) \<le> 2147483642" by simp
  with Suc.prems obtain s1 where
    step: "poll_thread_loop hz ((False, inc_down) # (False, at_rest) # (inc_presses n @ rest)) led s =
               poll_thread_loop hz (inc_presses n @ rest) led s1"
    and s1: "running s1" "last_inc_state s1 = 1" "last_dec_state s1 = 1"
      "blink_freq s1 = blink_freq s + 5"
    using press_cycle [of s hz "inc_presses n @ rest" led] by blast
  have f1: "sint (blink_freq s1) = sint (blink_freq s) + 5"
    using sint_plus5 [OF le] s1 by simp
  with Suc.prems have "1 \<le> sint (blink_freq s1)"
    "sint (blink_freq s1) + 5 * int n \<le> 2147483647" by simp_all
  with s1 Suc.prems(6) obtain s' where
    "poll_thread_loop hz (inc_presses n @ rest) led s1 = poll_thread_loop hz rest led s'"
    "running s'" "last_inc_state s' = 1" "last_dec_state s' = 1"
    "blink_freq s' = blink_freq s1 + 5 * word_of_nat n"
    using Suc.IH [of s1] by blast
  with step s1 show ?case
    by (auto simp: inc_presses_Suc algebra_simps)
qed

lemma poll_thread_loop_floor:
  assumes "1 \<le> sint (blink_freq s)"
  shows "\<exists>l s'. (poll_thread_loop hz obs led s = Pending (l, s') \<or>
                  poll_thread_loop hz obs led s = Returned (l, s')) \<and>
                 1 \<le> sint (blink_freq s')"
  using assms
proof (induction obs arbitrary: led s)
  case Nil
  then show ?case by simp
next
  case (Cons ob obs)
  obtain stop smp where ob: "ob = (stop, smp)" by (cases ob)
  show ?case
  proof (cases "\<not> stop \<and> running s")
    case True
    obtain s1 where body: "loop_body hz smp led s = Inr (\<not> led, s1)"
      and f1: "1 \<le> sint (blink_freq s1)"
      by (rule loop_body_total)
    from Cons.IH [OF f1, of "\<not> led"] body True ob show ?thesis by simp
  next
    case False
    with ob Cons.prems show ?thesis by auto
  qed
qed

lemma check_dec_floor:
  assumes "1 \<le> sint (blink_freq s)"
  shows "1 \<le> sint (blink_freq (check_dec hz c j s))"
  using assms by (simp add: check_dec_freq)

lemma check_inc_floor:
  assumes "1 \<le> sint (blink_freq s)" "sint (blink_freq s) \<le> 2147483642"
  shows "1 \<le> sint (blink_freq (check_inc hz c j s))"
  using assms sint_plus5 [OF assms(2)] by (simp add: check_inc_freq)

lemma globals_ready:
  "running (module_globals :: 'l::len kstate)"
  "last_inc_state (module_globals :: 'l::len kstate) = 1"
  "last_dec_state (module_globals :: 'l::len kstate) = 1"
  "blink_freq (module_globals :: 'l::len kstate) = 2"
  by (simp_all add: module_globals_def)

lemma inc_presses_from_start:
  fixes hz :: "'l::len word"
  assumes "2 + 5 * int n \<le> 2147483647" "0 < hz"
  shows "\<exists>s'. poll_thread_fn hz (inc_presses n @ rest) module_globals =
               poll_thread_loop hz rest False s' \<and>
           running s' \<and> last_inc_state s' = 1 \<and> last_dec_state s' = 1 \<and>
           blink_freq s' = 2 + 5 * word_of_nat n"
  unfolding poll_thread_fn_def
  using inc_presses_run [of "module_globals :: 'l kstate" n hz rest False] assms
  by (simp add: globals_ready)

lemma half_period_fast:
  assumes "501 \<le> sint f"
  shows "half_period f = Inr 0"
proof -
  have "1000 div sint f \<le> 1000 div 501" using assms by (intro zdiv_mono2) simp_all
  moreover have "0 \<le> 1000 div sint f" using assms by (simp add: pos_imp_zdiv_nonneg_iff)
  ultimately have "(1000 div sint f) div 2 = 0" by simp
  moreover have "1 \<le> sint f" using assms by simp
  ultimately show ?thesis using half_period_pos [of f] by simp
qed

lemma inc_presses_no_stop: "\<forall>ob \<in> set (inc_presses n). \<not> fst ob"
  by (simp add: inc_presses_def)

subsection \<open>The delay\<close>

text \<open>
  C3. The loop body first replaces a frequency below 1 by 1 and then sleeps for
  \<open>(1000 / f) / 2\<close> milliseconds, \<open>f\<close> being the re-clamped frequency; both divisions have
  non-negative operands, where truncation and \<open>div\<close> agree. The divisor is never zero: the
  sleep block, and with it the whole loop body, returns from every state. Frequency 7 gives 71,
  also when it is reached from the initial frequency 2 by a press released after 20 ticks of a
  100 Hz clock.
\<close>

theorem half_period_well_defined:
  "sleep_block s =
     Inr (emit (Msleep (word_of_int ((1000 div max 1 (sint (blink_freq s))) div 2)))
            (s\<lparr>blink_freq := (if sint (blink_freq s) < 1 then 1 else blink_freq s)\<rparr>)) \<and>
   sint (word_of_int ((1000 div max 1 (sint (blink_freq s))) div 2) :: 32 word) =
     (1000 div max 1 (sint (blink_freq s))) div 2 \<and>
   (\<exists>s'. loop_body hz smp led s = Inr (\<not> led, s')) \<and>
   half_period 7 = Inr 71 \<and>
   poll_thread_fn (100 :: 64 word)
     [(False, inc_down), (False, at_rest\<lparr>jiffies_inc := 20\<rparr>)] module_globals =
   Pending (False, module_globals\<lparr>blink_freq := 7,
      trace := [led_set, Msleep 250,
                Pr_info ''Increment button pressed: freq => %d'' [7], led_clear, Msleep 71]\<rparr>)"
proof -
  have "sint (word_of_int ((1000 div max 1 (sint (blink_freq s))) div 2) :: 32 word) =
     (1000 div max 1 (sint (blink_freq s))) div 2"
    by (rule sint_half_period) simp
  moreover have "\<exists>s'. loop_body hz smp led s = Inr (\<not> led, s')"
    by (rule loop_body_total [of hz smp led s]) blast
  moreover have "half_period 7 = Inr 71"
    using half_period_pos [of 7] by simp
  moreover have "poll_thread_fn (100 :: 64 word)
     [(False, inc_down), (False, at_rest\<lparr>jiffies_inc := 20\<rparr>)] module_globals =
   Pending (False, module_globals\<lparr>blink_freq := 7,
      trace := [led_set, Msleep 250,
                Pr_info ''Increment button pressed: freq => %d'' [7], led_clear, Msleep 71]\<rparr>)"
    by (simp add: poll_thread_fn_def loop_body_eq poll_buttons_def check_inc_def check_dec_def
        module_globals_def emit_def Let_def gpio_read_pin_def inc_down_def at_rest_def
        model_consts)
  ultimately show ?thesis
    using sleep_block_eq [of s] by simp
qed

subsection \<open>Button state\<close>

text \<open>
  C6. After a button block has processed a sample, the stored last level of that button is the
  level just sampled, from any earlier state and whether or not the level changed; nothing
  later in the iteration changes it, so it also holds at the end of every loop iteration.
\<close>

theorem last_level_mirrors_sample:
  "last_inc_state (check_inc hz c j s) = c \<and>
   last_dec_state (check_dec hz c j s) = c \<and>
   (\<exists>s'. loop_body hz smp led s = Inr (\<not> led, s') \<and>
      last_inc_state s' = gpio_read_pin (gplev_inc smp) GPIO_BTN_INC \<and>
      last_dec_state s' = gpio_read_pin (gplev_dec smp) GPIO_BTN_DEC)"
proof -
  obtain s' where "loop_body hz smp led s = Inr (\<not> led, s')"
    and "last_inc_state s' = gpio_read_pin (gplev_inc smp) GPIO_BTN_INC"
    and "last_dec_state s' = gpio_read_pin (gplev_dec smp) GPIO_BTN_DEC"
    by (rule loop_body_total)
  then show ?thesis by (auto simp: check_inc_last check_dec_last)
qed

text \<open>
  C9. The increment block leaves the decrement button's last level and press timestamp as they
  were, and the decrement block leaves the increment button's. Each block changes at most the
  frequency, its own button's two variables and the log.
\<close>

theorem button_blocks_frame:
  "last_dec_state (check_inc hz c j s) = last_dec_state s \<and>
   dec_press_jiffies (check_inc hz c j s) = dec_press_jiffies s \<and>
   last_inc_state (check_dec hz c j s) = last_inc_state s \<and>
   inc_press_jiffies (check_dec hz c j s) = inc_press_jiffies s \<and>
   check_inc hz c j s =
     s\<lparr>blink_freq := blink_freq (check_inc hz c j s),
       last_inc_state := last_inc_state (check_inc hz c j s),
       inc_press_jiffies := inc_press_jiffies (check_inc hz c j s),
       trace := trace (check_inc hz c j s)\<rparr> \<and>
   check_dec hz c j s =
     s\<lparr>blink_freq := blink_freq (check_dec hz c j s),
       last_dec_state := last_dec_state (check_dec hz c j s),
       dec_press_jiffies := dec_press_jiffies (check_dec hz c j s),
       trace := trace (check_dec hz c j s)\<rparr>"
proof -
  have "check_inc hz c j s =
     s\<lparr>blink_freq := blink_freq (check_inc hz c j s),
       last_inc_state := last_inc_state (check_inc hz c j s),
       inc_press_jiffies := inc_press_jiffies (check_inc hz c j s),
       trace := trace (check_inc hz c j s)\<rparr>"
    by (simp add: check_inc_def Let_def emit_def)
  moreover have "check_dec hz c j s =
     s\<lparr>blink_freq := blink_freq (check_dec hz c j s),
       last_dec_state := last_dec_state (check_dec hz c j s),
       dec_press_jiffies := dec_press_jiffies (check_dec hz c j s),
       trace := trace (check_dec hz c j s)\<rparr>"
    by (simp add: check_dec_def Let_def emit_def)
  ultimately show ?thesis
    using check_inc_frame(1,2) [of hz c j s] check_dec_frame(1,2) [of hz c j s] by simp
qed

subsection \<open>Short and long presses\<close>

text \<open>
  C1, as the code has it. The elapsed time of a press is what the code computes: \<^verbatim>\<open>jiffies\<close> at
  the release minus \<^verbatim>\<open>jiffies\<close> at the press, in \<^verbatim>\<open>unsigned long\<close> arithmetic, compared with
  \<^verbatim>\<open>HZ\<close>; when \<open>e\<close> ticks have passed and the counter has not gone once around, this is the
  comparison of \<open>e\<close> with \<^verbatim>\<open>HZ\<close>. For a button at rest, a press followed by a release after fewer than \<^verbatim>\<open>HZ\<close> ticks
  adds 5 to the frequency in 32-bit wrap-around arithmetic, which is exactly +5 whenever the
  frequency is at most 2147483642 (increment button), or sets it to the larger of 1 and the
  frequency minus 5 whenever the frequency is at least -2147483643 (decrement button). A release
  after \<^verbatim>\<open>HZ\<close> ticks or more leaves the frequency as it was.
\<close>

theorem press_release_pair:
  fixes hz j0 j1 :: "'l::len word" and s :: "'l kstate"
  shows
  "(last_inc_state s = 1 \<and> j1 - j0 < hz \<longrightarrow>
      blink_freq (check_inc hz 1 j1 (check_inc hz 0 j0 s)) = blink_freq s + 5) \<and>
   (last_inc_state s = 1 \<and> j1 - j0 < hz \<and> sint (blink_freq s) \<le> 2147483642 \<longrightarrow>
      sint (blink_freq (check_inc hz 1 j1 (check_inc hz 0 j0 s))) = sint (blink_freq s) + 5) \<and>
   (last_inc_state s = 1 \<and> hz \<le> j1 - j0 \<longrightarrow>
      blink_freq (check_inc hz 1 j1 (check_inc hz 0 j0 s)) = blink_freq s) \<and>
   (last_dec_state s = 1 \<and> j1 - j0 < hz \<and> - 2147483643 \<le> sint (blink_freq s) \<longrightarrow>
      sint (blink_freq (check_dec hz 1 j1 (check_dec hz 0 j0 s))) =
        max 1 (sint (blink_freq s) - 5)) \<and>
   (last_dec_state s = 1 \<and> hz \<le> j1 - j0 \<longrightarrow>
      blink_freq (check_dec hz 1 j1 (check_dec hz 0 j0 s)) = blink_freq s) \<and>
   (e < 2 ^ LENGTH('l) \<longrightarrow> ((j0 + word_of_nat e) - j0 < hz) = (e < unat hz))"
proof -
  have inc: "blink_freq (check_inc hz 1 j1 (check_inc hz 0 j0 s)) =
      (if j1 - j0 < hz then blink_freq s + 5 else blink_freq s)"
    if "last_inc_state s = 1"
    using that by (simp add: check_inc_freq check_inc_last check_inc_press)
  have dec: "blink_freq (check_dec hz 1 j1 (check_dec hz 0 j0 s)) =
      (if j1 - j0 < hz then (if sint (blink_freq s - 5) < 1 then 1 else blink_freq s - 5)
       else blink_freq s)"
    if "last_dec_state s = 1"
    using that by (simp add: check_dec_freq check_dec_last check_dec_press)
  have c1: "blink_freq (check_inc hz 1 j1 (check_inc hz 0 j0 s)) = blink_freq s + 5"
    if "last_inc_state s = 1 \<and> j1 - j0 < hz"
    using that inc by simp
  have c2: "sint (blink_freq (check_inc hz 1 j1 (check_inc hz 0 j0 s))) =
        sint (blink_freq s) + 5"
    if "last_inc_state s = 1 \<and> j1 - j0 < hz \<and> sint (blink_freq s) \<le> 2147483642"
    using that inc sint_plus5 [of "blink_freq s"] by simp
  have c3: "blink_freq (check_inc hz 1 j1 (check_inc hz 0 j0 s)) = blink_freq s"
    if "last_inc_state s = 1 \<and> hz \<le> j1 - j0"
    using that inc by (simp add: not_less [symmetric])
  have c4: "sint (blink_freq (check_dec hz 1 j1 (check_dec hz 0 j0 s))) =
        max 1 (sint (blink_freq s) - 5)"
    if "last_dec_state s = 1 \<and> j1 - j0 < hz \<and> - 2147483643 \<le> sint (blink_freq s)"
    using that dec sint_minus5 [of "blink_freq s"] by (simp add: max_def)
  have c5: "blink_freq (check_dec hz 1 j1 (check_dec hz 0 j0 s)) = blink_freq s"
    if "last_dec_state s = 1 \<and> hz \<le> j1 - j0"
    using that dec by (simp add: not_less [symmetric])
  have c6: "((j0 + word_of_nat e) - j0 < hz) = (e < unat hz)" if "e < 2 ^ LENGTH('l)"
    using that by (rule elapsed_ticks)
  from c1 c2 c3 c4 c5 c6 show ?thesis by blast
qed

text \<open>
  The theorem at the initial state with a 100 Hz clock: a press released after 20 ticks and one
  released after 150 ticks, on each button.
\<close>

theorem press_release_pair_witness:
  "last_inc_state (module_globals :: 64 kstate) = 1 \<and>
   last_dec_state (module_globals :: 64 kstate) = 1 \<and>
   (20 - 0 :: 64 word) < 100 \<and> (100 :: 64 word) \<le> 150 - 0 \<and>
   sint (blink_freq (module_globals :: 64 kstate)) \<le> 2147483642 \<and>
   - 2147483643 \<le> sint (blink_freq (module_globals :: 64 kstate)) \<and>
   blink_freq (check_inc 100 1 20 (check_inc 100 0 0 (module_globals :: 64 kstate))) = 7 \<and>
   sint (blink_freq (check_inc 100 1 20 (check_inc 100 0 0 (module_globals :: 64 kstate)))) = 7 \<and>
   blink_freq (check_inc 100 1 150 (check_inc 100 0 0 (module_globals :: 64 kstate))) = 2 \<and>
   sint (blink_freq (check_dec 100 1 20 (check_dec 100 0 0 (module_globals :: 64 kstate)))) = 1 \<and>
   blink_freq (check_dec 100 1 150 (check_dec 100 0 0 (module_globals :: 64 kstate))) = 2 \<and>
   (20 :: nat) < 2 ^ LENGTH(64) \<and>
   ((0 + word_of_nat 20) - 0 < (100 :: 64 word)) = (20 < unat (100 :: 64 word))"
  using press_release_pair [where hz = "100 :: 64 word" and ?j0.0 = 0 and ?j1.0 = 20
      and s = module_globals and e = 20]
    press_release_pair [where hz = "100 :: 64 word" and ?j0.0 = 0 and ?j1.0 = 150
      and s = module_globals and e = 20]
  by (simp add: globals_ready)

text \<open>
  C1 as stated fails at the top of the \<^verbatim>\<open>int\<close> range. The loop reaches frequency 2147483647
  from the initial state by 429496729 short presses of the increment button; at that frequency
  a press released after 20 ticks of a 100 Hz clock leaves -2147483644, not 2147483652.
\<close>

theorem press_adds_five_counterexample:
  "map_option blink_freq
     (run_state (poll_thread_fn (100 :: 64 word) (inc_presses 429496729) module_globals)) =
     Some 2147483647 \<and>
   last_inc_state (module_globals\<lparr>blink_freq := 2147483647\<rparr> :: 64 kstate) = 1 \<and>
   (20 - 0 :: 64 word) < 100 \<and>
   sint (blink_freq (check_inc (100 :: 64 word) 1 20
      (check_inc 100 0 0 (module_globals\<lparr>blink_freq := 2147483647\<rparr>)))) = - 2147483644"
proof -
  obtain s1 :: "64 kstate" where
    "poll_thread_fn 100 (inc_presses 429496729 @ []) module_globals =
            poll_thread_loop 100 [] False s1"
    and "blink_freq s1 = 2 + 5 * word_of_nat 429496729"
    using inc_presses_from_start [of 429496729 "100 :: 64 word" "[]"]
    by auto
  then have "map_option blink_freq
     (run_state (poll_thread_fn (100 :: 64 word) (inc_presses 429496729) module_globals)) =
     Some 2147483647" by simp
  then show ?thesis
    by (simp add: check_inc_freq check_inc_last check_inc_press module_globals_def)
qed

subsection \<open>The floor of the frequency\<close>

lemma sint_plus5_wrap:
  assumes "2147483643 \<le> sint (f :: 32 word)"
  shows "sint (f + 5) = sint f + 5 - 4294967296"
proof -
  have ub: "sint f < 2147483648" using sint_lt [of f] by simp
  have e: "f + 5 = word_of_int (sint f + 5)" by simp
  have "sint (word_of_int (sint f + 5) :: 32 word) =
      (sint f + 5 + 2 ^ (LENGTH(32) - 1)) mod 2 ^ LENGTH(32) - 2 ^ (LENGTH(32) - 1)"
    by (rule int_word_sint)
  then have "sint (f + 5) = (2147483653 + sint f) mod 4294967296 - 2147483648"
    by (simp only: e [symmetric]) simp
  moreover have "(2147483653 + sint f) mod 4294967296 = 2147483653 + sint f - 4294967296"
  proof -
    have "0 \<le> 2147483653 + sint f - 4294967296" using assms by simp
    moreover have "2147483653 + sint f - 4294967296 < 4294967296" using ub by simp
    ultimately have "(2147483653 + sint f - 4294967296) mod 4294967296 =
        2147483653 + sint f - 4294967296"
      by (rule mod_pos_pos_trivial)
    moreover have "(2147483653 + sint f - 4294967296) mod 4294967296 =
        (2147483653 + sint f) mod 4294967296"
      by (rule minus_mod_self2)
    ultimately show ?thesis by simp
  qed
  ultimately show ?thesis by simp
qed

text \<open>
  C2, as the code has it. From the initial state, whatever the buttons and the stop flag do,
  the loop never traps and the frequency is at least 1 whenever the loop is at its condition or
  has returned: every iteration ends with a frequency of at least 1, from any state, because
  the body re-clamps it before the sleep. On its own the decrement block never takes a
  frequency of 1 or more below 1, and neither does the increment block for frequencies up to
  2147483642. At a frequency of 2147483643 or more the release of a short press makes the
  increment block wrap the 32-bit \<^verbatim>\<open>int\<close>: it leaves the frequency plus 5 minus \<open>2 ^ 32\<close>,
  which is negative.
\<close>

theorem frequency_floor_each_iteration:
  "(\<exists>l s'. (poll_thread_fn hz obs module_globals = Pending (l, s') \<or>
             poll_thread_fn hz obs module_globals = Returned (l, s')) \<and>
            1 \<le> sint (blink_freq s')) \<and>
   (\<exists>s'. loop_body hz smp led s = Inr (\<not> led, s') \<and> 1 \<le> sint (blink_freq s')) \<and>
   (1 \<le> sint (blink_freq s) \<longrightarrow> 1 \<le> sint (blink_freq (check_dec hz c j s))) \<and>
   (1 \<le> sint (blink_freq s) \<and> sint (blink_freq s) \<le> 2147483642 \<longrightarrow>
      1 \<le> sint (blink_freq (check_inc hz c j s))) \<and>
   (c \<noteq> last_inc_state s \<and> c \<noteq> 0 \<and> j - inc_press_jiffies s < hz \<and>
    2147483643 \<le> sint (blink_freq s) \<longrightarrow>
      sint (blink_freq (check_inc hz c j s)) = sint (blink_freq s) + 5 - 4294967296 \<and>
      sint (blink_freq (check_inc hz c j s)) < 0)"
proof -
  have "1 \<le> sint (blink_freq (module_globals :: 'a kstate))"
    by (simp add: module_globals_def)
  then have "\<exists>l s'. (poll_thread_fn hz obs module_globals = Pending (l, s') \<or>
             poll_thread_fn hz obs module_globals = Returned (l, s')) \<and>
            1 \<le> sint (blink_freq s')"
    unfolding poll_thread_fn_def by (rule poll_thread_loop_floor)
  moreover have "\<exists>s'. loop_body hz smp led s = Inr (\<not> led, s') \<and> 1 \<le> sint (blink_freq s')"
    by (rule loop_body_total [of hz smp led s]) blast
  moreover have "sint (blink_freq (check_inc hz c j s)) = sint (blink_freq s) + 5 - 4294967296 \<and>
      sint (blink_freq (check_inc hz c j s)) < 0"
    if "c \<noteq> last_inc_state s \<and> c \<noteq> 0 \<and> j - inc_press_jiffies s < hz \<and>
        2147483643 \<le> sint (blink_freq s)"
  proof -
    from that have f: "blink_freq (check_inc hz c j s) = blink_freq s + 5"
      by (simp add: check_inc_freq)
    from that have w: "sint (blink_freq s + 5) = sint (blink_freq s) + 5 - 4294967296"
      by (intro sint_plus5_wrap) simp
    have "sint (blink_freq s) < 2 ^ 31" using sint_lt [of "blink_freq s"] by simp
    with f w show ?thesis by simp
  qed
  ultimately show ?thesis
    using check_dec_floor [of s hz c j] check_inc_floor [of s hz c j] by blast
qed

text \<open>
  The theorem with a 100 Hz clock on a run of two iterations, and on three states in which the
  blocks see a release within the tick of the press: at the initial frequency 2 the increment
  block gives 7 and the decrement block clamps to 1; at frequency 2147483647 the increment
  block wraps to -2147483644.
\<close>

theorem frequency_floor_each_iteration_witness:
  "1 \<le> sint (blink_freq (module_globals\<lparr>last_inc_state := 0, last_dec_state := 0\<rparr> :: 64 kstate)) \<and>
   sint (blink_freq (module_globals\<lparr>last_inc_state := 0, last_dec_state := 0\<rparr> :: 64 kstate))
     \<le> 2147483642 \<and>
   blink_freq (check_dec 100 1 0
     (module_globals\<lparr>last_inc_state := 0, last_dec_state := 0\<rparr> :: 64 kstate)) = 1 \<and>
   1 \<le> sint (blink_freq (check_dec 100 1 0
     (module_globals\<lparr>last_inc_state := 0, last_dec_state := 0\<rparr> :: 64 kstate))) \<and>
   blink_freq (check_inc 100 1 0
     (module_globals\<lparr>last_inc_state := 0, last_dec_state := 0\<rparr> :: 64 kstate)) = 7 \<and>
   1 \<le> sint (blink_freq (check_inc 100 1 0
     (module_globals\<lparr>last_inc_state := 0, last_dec_state := 0\<rparr> :: 64 kstate))) \<and>
   (\<exists>l s'. (poll_thread_fn (100 :: 64 word) [(False, inc_down), (False, at_rest)] module_globals
               = Pending (l, s') \<or>
             poll_thread_fn (100 :: 64 word) [(False, inc_down), (False, at_rest)] module_globals
               = Returned (l, s')) \<and>
            1 \<le> sint (blink_freq s')) \<and>
   (1 :: 32 word) \<noteq>
     last_inc_state (module_globals\<lparr>last_inc_state := 0, blink_freq := 2147483647\<rparr> :: 64 kstate) \<and>
   (1 :: 32 word) \<noteq> 0 \<and>
   0 - inc_press_jiffies (module_globals\<lparr>last_inc_state := 0, blink_freq := 2147483647\<rparr> :: 64 kstate)
     < 100 \<and>
   2147483643 \<le>
     sint (blink_freq (module_globals\<lparr>last_inc_state := 0, blink_freq := 2147483647\<rparr> :: 64 kstate)) \<and>
   sint (blink_freq (check_inc 100 1 0
     (module_globals\<lparr>last_inc_state := 0, blink_freq := 2147483647\<rparr> :: 64 kstate))) =
     - 2147483644"
proof -
  have g: "blink_freq (module_globals\<lparr>last_inc_state := 0, last_dec_state := 0\<rparr> :: 64 kstate) = 2"
    "last_inc_state (module_globals\<lparr>last_inc_state := 0, last_dec_state := 0\<rparr> :: 64 kstate) = 0"
    "last_dec_state (module_globals\<lparr>last_inc_state := 0, last_dec_state := 0\<rparr> :: 64 kstate) = 0"
    "inc_press_jiffies (module_globals\<lparr>last_inc_state := 0, last_dec_state := 0\<rparr> :: 64 kstate) = 0"
    "dec_press_jiffies (module_globals\<lparr>last_inc_state := 0, last_dec_state := 0\<rparr> :: 64 kstate) = 0"
    "blink_freq (module_globals\<lparr>last_inc_state := 0, blink_freq := 2147483647\<rparr> :: 64 kstate)
       = 2147483647"
    "last_inc_state (module_globals\<lparr>last_inc_state := 0, blink_freq := 2147483647\<rparr> :: 64 kstate) = 0"
    "inc_press_jiffies (module_globals\<lparr>last_inc_state := 0, blink_freq := 2147483647\<rparr> :: 64 kstate)
       = 0"
    by (simp_all add: module_globals_def)
  have v: "blink_freq (check_dec 100 1 0
       (module_globals\<lparr>last_inc_state := 0, last_dec_state := 0\<rparr> :: 64 kstate)) = 1"
    "blink_freq (check_inc 100 1 0
       (module_globals\<lparr>last_inc_state := 0, last_dec_state := 0\<rparr> :: 64 kstate)) = 7"
    by (simp_all add: check_dec_freq check_inc_freq g)
  show ?thesis
    using frequency_floor_each_iteration
      [where hz = "100 :: 64 word" and obs = "[(False, inc_down), (False, at_rest)]"
         and s = "module_globals\<lparr>last_inc_state := 0, last_dec_state := 0\<rparr>"
         and c = 1 and j = 0]
      frequency_floor_each_iteration
      [where hz = "100 :: 64 word" and obs = "[(False, inc_down), (False, at_rest)]"
         and s = "module_globals\<lparr>last_inc_state := 0, blink_freq := 2147483647\<rparr>"
         and c = 1 and j = 0]
    by (simp add: g v)
qed

text \<open>
  C2 as stated fails: the increment operation can drive the frequency below 1. After 429496729
  short presses of the increment button and one more press, the increment block of the
  iteration that sees the release leaves the frequency at -2147483644.
\<close>

theorem increment_wraps_counterexample:
  "map_option (sint \<circ> blink_freq \<circ> check_inc 100 1 0)
     (run_state (poll_thread_fn (100 :: 64 word)
        (inc_presses 429496729 @ [(False, inc_down)]) module_globals)) =
   Some (- 2147483644)"
proof -
  obtain s1 :: "64 kstate" where
    run: "poll_thread_fn 100 (inc_presses 429496729 @ [(False, inc_down)]) module_globals =
            poll_thread_loop 100 [(False, inc_down)] False s1"
    and s1: "running s1" "last_inc_state s1 = 1" "last_dec_state s1 = 1"
      "blink_freq s1 = 2 + 5 * word_of_nat 429496729"
    using inc_presses_from_start [of 429496729 "100 :: 64 word" "[(False, inc_down)]"]
    by auto
  have f1: "blink_freq s1 = 2147483647" using s1(4) by simp
  obtain s2 where b: "loop_body 100 inc_down False s1 = Inr (True, s2)"
    and s2: "s2 = emit (Msleep (word_of_int
                  ((1000 div max 1 (sint (blink_freq (poll_buttons 100 inc_down s1)))) div 2)))
            ((emit led_set (poll_buttons 100 inc_down s1))
               \<lparr>blink_freq := (if sint (blink_freq (poll_buttons 100 inc_down s1)) < 1 then 1
                               else blink_freq (poll_buttons 100 inc_down s1))\<rparr>)"
    using loop_body_eq [of 100 inc_down False s1] by simp
  have p: "blink_freq (poll_buttons 100 inc_down s1) = 2147483647"
    using s1 f1 by (simp add: poll_buttons_def check_inc_freq check_dec_freq check_inc_frame)
  have j: "inc_press_jiffies (poll_buttons 100 inc_down s1) = 0"
    using s1 by (simp add: poll_buttons_def check_inc_press check_dec_frame)
  have f2: "blink_freq s2 = 2147483647" using p by (simp add: s2)
  have l2: "last_inc_state s2 = 0" by (simp add: s2 poll_buttons_sel)
  have j2: "inc_press_jiffies s2 = 0" using j by (simp add: s2)
  have "run_state (poll_thread_fn 100 (inc_presses 429496729 @ [(False, inc_down)])
          module_globals) = Some s2"
    using run s1(1) b by simp
  moreover have "blink_freq (check_inc 100 1 0 s2) = 2147483647 + 5"
    using f2 l2 j2 by (simp add: check_inc_freq)
  ultimately show ?thesis by simp
qed

subsection \<open>High frequencies\<close>

text \<open>
  C10. For every frequency of 501 or more the half-period \<open>(1000 / f) / 2\<close> is 0, and the
  sleep block then sleeps for 0 milliseconds. Such a frequency is reachable: with any clock
  rate above zero, 100 short presses of the increment button take the loop from the initial
  frequency 2 to 502, and the last sleep of that run is \<open>msleep(0)\<close>.
\<close>

theorem zero_half_period:
  fixes hz :: "'l::len word"
  shows
  "(501 \<le> sint f \<longrightarrow> half_period f = Inr 0) \<and>
   (501 \<le> sint (blink_freq s) \<longrightarrow> sleep_block s = Inr (emit (Msleep 0) s)) \<and>
   (0 < hz \<longrightarrow>
      (\<exists>s'. poll_thread_fn hz (inc_presses 100) module_globals = Pending (False, s') \<and>
            blink_freq s' = 502 \<and> half_period (blink_freq s') = Inr 0 \<and>
            last (trace s') = Msleep 0))"
proof -
  have a: "half_period f = Inr 0" if "501 \<le> sint f"
    using that by (rule half_period_fast)
  have b: "sleep_block s = Inr (emit (Msleep 0) s)" if "501 \<le> sint (blink_freq s)"
    using that half_period_fast [OF that] by (simp add: sleep_block_def)
  have c: "\<exists>s'. poll_thread_fn hz (inc_presses 100) module_globals = Pending (False, s') \<and>
            blink_freq s' = 502 \<and> half_period (blink_freq s') = Inr 0 \<and>
            last (trace s') = Msleep 0" if "0 < hz"
  proof -
    have "\<exists>s1 :: 'l kstate.
        poll_thread_fn hz (inc_presses 100) module_globals = Pending (False, s1) \<and>
        blink_freq s1 = 502"
      using inc_presses_from_start [of 100 hz "[]"] that by auto
    then obtain s1 :: "'l kstate" where
      r1: "poll_thread_fn hz (inc_presses 100) module_globals = Pending (False, s1)"
      and f1: "blink_freq s1 = 502"
      by blast
    obtain s2 where
      r2: "poll_thread_loop hz (inc_presses 100) False (module_globals :: 'l kstate) =
             Pending (False \<noteq> odd (length (inc_presses 100 :: (bool \<times> 'l sample) list)), s2)"
      and m2: "inc_presses 100 = ([] :: (bool \<times> 'l sample) list) \<or>
            1 \<le> sint (blink_freq s2) \<and>
            last (trace s2) = Msleep (word_of_int ((1000 div sint (blink_freq s2)) div 2))"
      using poll_thread_loop_running
          [where obs = "inc_presses 100 :: (bool \<times> 'l sample) list"
             and s = "module_globals :: 'l kstate" and hz = hz and led = False]
        inc_presses_no_stop [of 100] globals_ready(1)
      by blast
    from r1 r2 have eq: "s2 = s1" by (simp add: poll_thread_fn_def)
    have ne: "inc_presses 100 \<noteq> ([] :: (bool \<times> 'l sample) list)"
      by (simp add: inc_presses_def)
    have f: "blink_freq s1 = 502" using f1 by simp
    from f have "sint (blink_freq s1) = 502" by simp
    with m2 ne eq have "last (trace s1) = Msleep 0" by simp
    moreover have "half_period (blink_freq s1) = Inr 0"
      using half_period_fast [of 502] f by simp
    ultimately show ?thesis using r1 f by auto
  qed
  from a b c show ?thesis by blast
qed

text \<open>The theorem at frequency 501 and with a 100 Hz clock.\<close>

theorem zero_half_period_witness:
  "501 \<le> sint (501 :: 32 word) \<and> half_period 501 = Inr 0 \<and>
   501 \<le> sint (blink_freq (module_globals\<lparr>blink_freq := 501\<rparr> :: 64 kstate)) \<and>
   sleep_block (module_globals\<lparr>blink_freq := 501\<rparr> :: 64 kstate) =
     Inr (emit (Msleep 0) (module_globals\<lparr>blink_freq := 501\<rparr>)) \<and>
   (0 :: 64 word) < 100 \<and>
   (\<exists>s'. poll_thread_fn (100 :: 64 word) (inc_presses 100) module_globals = Pending (False, s') \<and>
         blink_freq s' = 502 \<and> half_period (blink_freq s') = Inr 0 \<and>
         last (trace s') = Msleep 0)"
  using zero_half_period [where f = 501 and s = "module_globals\<lparr>blink_freq := 501\<rparr> :: 64 kstate"
      and hz = "100 :: 64 word"]
  by simp

subsection \<open>The output\<close>

text \<open>
  C5. Every loop iteration flips \<open>led_on\<close> and writes exactly once to the set or the clear
  register: the set register when the LED was off, the clear register when it was on. So while
  the loop runs, from a state in which the pin has not been written yet, the writes alternate
  starting with a set, and after \<open>n\<close> iterations the output is lit exactly when \<open>n\<close> is odd.
\<close>

theorem output_alternates:
  assumes "\<forall>ob \<in> set obs. \<not> fst ob" and "running s" and "pin_writes (trace s) = []"
  shows "(\<exists>s'. poll_thread_fn hz obs s = Pending (odd (length obs), s') \<and>
           pin_writes (trace s') =
             map (\<lambda>i. if even i then led_set else led_clear) [0..<length obs] \<and>
           led_lit (trace s') = odd (length obs) \<and>
           iterations (trace s') = iterations (trace s) + length obs) \<and>
         (\<exists>s1. loop_body hz smp led s = Inr (\<not> led, s1) \<and>
           pin_writes (trace s1) = pin_writes (trace s) @ [if led then led_clear else led_set])"
proof -
  obtain s' where run: "poll_thread_loop hz obs False s = Pending (False \<noteq> odd (length obs), s')"
    and w: "pin_writes (trace s') =
             pin_writes (trace s) @
               map (\<lambda>i. if even i \<noteq> False then led_set else led_clear) [0..<length obs]"
    and i: "iterations (trace s') = iterations (trace s) + length obs"
    using poll_thread_loop_running [OF assms(1,2), of hz False] by blast
  from w assms(3) have w': "pin_writes (trace s') =
             map (\<lambda>i. if even i then led_set else led_clear) [0..<length obs]" by simp
  from led_lit_alternating [OF w'] run w' i
  have "\<exists>s'. poll_thread_fn hz obs s = Pending (odd (length obs), s') \<and>
           pin_writes (trace s') =
             map (\<lambda>i. if even i then led_set else led_clear) [0..<length obs] \<and>
           led_lit (trace s') = odd (length obs) \<and>
           iterations (trace s') = iterations (trace s) + length obs"
    by (simp add: poll_thread_fn_def)
  moreover have "\<exists>s1. loop_body hz smp led s = Inr (\<not> led, s1) \<and>
           pin_writes (trace s1) = pin_writes (trace s) @ [if led then led_clear else led_set]"
    by (rule loop_body_total [of hz smp led s]) blast
  ultimately show ?thesis by blast
qed

text \<open>The theorem on three iterations from the initial state, both buttons at rest.\<close>

theorem output_alternates_witness:
  "\<not> fst (False, at_rest :: 64 sample) \<and> running (module_globals :: 64 kstate) \<and>
   pin_writes (trace (module_globals :: 64 kstate)) = [] \<and>
   (\<exists>s'. poll_thread_fn (100 :: 64 word) [(False, at_rest), (False, at_rest), (False, at_rest)]
            module_globals = Pending (True, s') \<and>
         pin_writes (trace s') = [led_set, led_clear, led_set] \<and>
         led_lit (trace s') \<and> iterations (trace s') = 3)"
proof -
  have t: "trace (module_globals :: 64 kstate) = []" by (simp add: module_globals_def)
  have u: "[0..<3] = [0, 1, 2]" by (simp add: upt_rec)
  have v: "Suc (Suc (Suc 0)) = 3" by simp
  show ?thesis
    using output_alternates [where obs = "[(False, at_rest), (False, at_rest), (False, at_rest)]"
      and s = "module_globals :: 64 kstate" and hz = 100 and smp = at_rest and led = False]
    by (simp add: globals_ready t u v pin_writes_def iterations_def)
qed

subsection \<open>Startup\<close>

text \<open>
  C8. The globals are initialised with frequency 2 and both last levels 1 (HIGH). A successful
  \<^verbatim>\<open>two_button_init\<close> returns 0 and leaves these three as they are, without any write to the
  set or clear register; \<^verbatim>\<open>poll_thread_fn\<close> then reaches its first loop condition with
  \<open>led_on\<close> false and the globals untouched.
\<close>

theorem startup_state:
  "blink_freq (module_globals :: 'l::len kstate) = 2 \<and>
   last_inc_state (module_globals :: 'l kstate) = 1 \<and>
   last_dec_state (module_globals :: 'l kstate) = 1 \<and>
   fst (two_button_init
          \<lparr>ioremap_result = Some a, gpfsel1_val = v1, gpfsel2_val = v2,
           kthread_run_result = Task p\<rparr> (module_globals :: 'l kstate)) = 0 \<and>
   blink_freq (snd (two_button_init
          \<lparr>ioremap_result = Some a, gpfsel1_val = v1, gpfsel2_val = v2,
           kthread_run_result = Task p\<rparr> (module_globals :: 'l kstate))) = 2 \<and>
   last_inc_state (snd (two_button_init
          \<lparr>ioremap_result = Some a, gpfsel1_val = v1, gpfsel2_val = v2,
           kthread_run_result = Task p\<rparr> (module_globals :: 'l kstate))) = 1 \<and>
   last_dec_state (snd (two_button_init
          \<lparr>ioremap_result = Some a, gpfsel1_val = v1, gpfsel2_val = v2,
           kthread_run_result = Task p\<rparr> (module_globals :: 'l kstate))) = 1 \<and>
   pin_writes (trace (snd (two_button_init
          \<lparr>ioremap_result = Some a, gpfsel1_val = v1, gpfsel2_val = v2,
           kthread_run_result = Task p\<rparr> (module_globals :: 'l kstate)))) = [] \<and>
   poll_thread_fn hz [] s = Pending (False, s)"
  by (simp add: two_button_init_def Let_def module_globals_def poll_thread_fn_def pin_writes_def
      GPFSEL1_OFFSET_def GPFSEL2_OFFSET_def GPPUD_OFFSET_def GPPUDCLK0_OFFSET_def model_consts)

text \<open>
  C7. When \<^verbatim>\<open>ioremap\<close> has succeeded and \<^verbatim>\<open>kthread_run\<close> returns an error pointer,
  \<^verbatim>\<open>two_button_init\<close> returns the errno of that pointer, its last action is \<^verbatim>\<open>iounmap\<close> and the
  mapping is no longer live. No worker exists: \<^verbatim>\<open>poll_thread\<close> holds the error pointer, and
  no loop iteration and no write to the LED registers has happened. Half-started state is read
  here as a live mapping or a running worker.
\<close>

theorem worker_launch_failure_unwinds:
  "fst (two_button_init
          \<lparr>ioremap_result = Some a, gpfsel1_val = v1, gpfsel2_val = v2,
           kthread_run_result = Err_ptr e\<rparr> s) = e \<and>
   \<not> iomem_mapped (snd (two_button_init
          \<lparr>ioremap_result = Some a, gpfsel1_val = v1, gpfsel2_val = v2,
           kthread_run_result = Err_ptr e\<rparr> s)) \<and>
   last (trace (snd (two_button_init
          \<lparr>ioremap_result = Some a, gpfsel1_val = v1, gpfsel2_val = v2,
           kthread_run_result = Err_ptr e\<rparr> s))) = Iounmap \<and>
   poll_thread (snd (two_button_init
          \<lparr>ioremap_result = Some a, gpfsel1_val = v1, gpfsel2_val = v2,
           kthread_run_result = Err_ptr e\<rparr> s)) = Err_ptr e \<and>
   iterations (trace (snd (two_button_init
          \<lparr>ioremap_result = Some a, gpfsel1_val = v1, gpfsel2_val = v2,
           kthread_run_result = Err_ptr e\<rparr> s))) = iterations (trace s) \<and>
   pin_writes (trace (snd (two_button_init
          \<lparr>ioremap_result = Some a, gpfsel1_val = v1, gpfsel2_val = v2,
           kthread_run_result = Err_ptr e\<rparr> s))) = pin_writes (trace s)"
  by (simp add: two_button_init_def Let_def iounmap_def pin_writes_def iterations_def
      GPFSEL1_OFFSET_def GPFSEL2_OFFSET_def GPPUD_OFFSET_def GPPUDCLK0_OFFSET_def model_consts)

subsection \<open>Shutdown\<close>

lemma kthread_stop_returns:
  "\<exists>s2. kthread_stop hz inflight nxt led s =
          Returned (case inflight of None \<Rightarrow> led | Some smp \<Rightarrow> \<not> led, s2) \<and>
      running s2 = running s \<and> gpio_base s2 = gpio_base s \<and>
      iterations (trace s2) =
        iterations (trace s) + (case inflight of None \<Rightarrow> 0 | Some smp \<Rightarrow> 1) \<and>
      pin_writes (trace s2) =
        pin_writes (trace s) @
          (case inflight of None \<Rightarrow> [] | Some smp \<Rightarrow> [if led then led_clear else led_set])"
proof (cases inflight)
  case None
  then show ?thesis by (simp add: kthread_stop_def)
next
  case (Some smp)
  obtain s1 where "loop_body hz smp led s = Inr (\<not> led, s1)"
    and "running s1 = running s" and "gpio_base s1 = gpio_base s"
    and "pin_writes (trace s1) = pin_writes (trace s) @ [if led then led_clear else led_set]"
    and "iterations (trace s1) = Suc (iterations (trace s))"
    by (rule loop_body_total)
  with Some show ?thesis by (simp add: kthread_stop_def)
qed

lemma led_lit_after_clear:
  assumes "pin_writes tr' = []"
  shows "\<not> led_lit (tr @ led_clear # tr')"
  using assms
  by (simp add: led_lit_def pin_writes_def led_clear_def led_set_def model_consts)

lemma two_button_exit_eq:
  assumes "(if poll_thread s \<noteq> Null then kthread_stop hz inflight nxt led (s\<lparr>running := False\<rparr>)
            else Returned (led, s\<lparr>running := False\<rparr>)) = Returned (l, s2)"
    and "gpio_base s2 = gpio_base s"
  shows "\<exists>s'. two_button_exit hz inflight nxt led s = Returned s' \<and>
     trace s' = trace s2 @ led_clear # (if gpio_base s \<noteq> None then [Iounmap] else []) @
                  [Pr_info ''two_button_blink: unloaded.'' []] \<and>
     running s' = running s2 \<and> gpio_base s' = None"
  using assms
  by (simp add: two_button_exit_def Let_def gpio_clear_pin_def iounmap_def led_clear_def
      split: if_splits)

text \<open>
  C4, as the code has it. A loop condition that sees the stop flag raised or \<^verbatim>\<open>running\<close>
  cleared makes \<^verbatim>\<open>poll_thread_fn\<close> return at once, with \<open>led_on\<close>, the globals and the trace
  exactly as they are: the loop function writes nothing on its way out. \<^verbatim>\<open>two_button_exit\<close>
  clears \<^verbatim>\<open>running\<close> and, when there is a thread, stops it: the thread completes at most the
  one iteration it is in, which toggles the output once as every iteration does, and returns at
  its next loop condition; without an iteration in flight, or without a thread, the writes to
  the output are those made before the request. Only then, after \<^verbatim>\<open>poll_thread_fn\<close> has
  returned, \<^verbatim>\<open>two_button_exit\<close> itself writes the LED bit to the clear register, releases the
  mapping if there is one and logs; the output ends unlit.
\<close>

theorem exit_leaves_led_unlit:
  "poll_thread_loop hz ((True, nxt) # obs) led s = Returned (led, s) \<and>
   poll_thread_loop hz ((stop, nxt) # obs) led (s\<lparr>running := False\<rparr>) =
     Returned (led, s\<lparr>running := False\<rparr>) \<and>
   (\<exists>l s2 s'.
     (if poll_thread s \<noteq> Null then kthread_stop hz inflight nxt led (s\<lparr>running := False\<rparr>)
      else Returned (led, s\<lparr>running := False\<rparr>)) = Returned (l, s2) \<and>
     l = (if poll_thread s \<noteq> Null \<and> inflight \<noteq> None then \<not> led else led) \<and>
     iterations (trace s2) =
       iterations (trace s) + (if poll_thread s \<noteq> Null \<and> inflight \<noteq> None then 1 else 0) \<and>
     iterations (trace s2) \<le> iterations (trace s) + 1 \<and>
     pin_writes (trace s2) =
       pin_writes (trace s) @
         (if poll_thread s \<noteq> Null \<and> inflight \<noteq> None
          then [if led then led_clear else led_set] else []) \<and>
     two_button_exit hz inflight nxt led s = Returned s' \<and>
     trace s' = trace s2 @ led_clear # (if gpio_base s \<noteq> None then [Iounmap] else []) @
                  [Pr_info ''two_button_blink: unloaded.'' []] \<and>
     \<not> led_lit (trace s') \<and> \<not> running s')"
proof -
  obtain s2 where k: "kthread_stop hz inflight nxt led (s\<lparr>running := False\<rparr>) =
        Returned (case inflight of None \<Rightarrow> led | Some smp \<Rightarrow> \<not> led, s2)"
    and r: "running s2 = running (s\<lparr>running := False\<rparr>)"
    and g: "gpio_base s2 = gpio_base (s\<lparr>running := False\<rparr>)"
    and i: "iterations (trace s2) =
        iterations (trace (s\<lparr>running := False\<rparr>)) + (case inflight of None \<Rightarrow> 0 | Some smp \<Rightarrow> 1)"
    and w: "pin_writes (trace s2) =
        pin_writes (trace (s\<lparr>running := False\<rparr>)) @
          (case inflight of None \<Rightarrow> [] | Some smp \<Rightarrow> [if led then led_clear else led_set])"
    using kthread_stop_returns [of hz inflight nxt led "s\<lparr>running := False\<rparr>"] by blast
  define l' where "l' = (if poll_thread s \<noteq> Null \<and> inflight \<noteq> None then \<not> led else led)"
  define s2' where "s2' = (if poll_thread s \<noteq> Null then s2 else s\<lparr>running := False\<rparr>)"
  have th: "(if poll_thread s \<noteq> Null then kthread_stop hz inflight nxt led (s\<lparr>running := False\<rparr>)
      else Returned (led, s\<lparr>running := False\<rparr>)) = Returned (l', s2')"
    using k by (simp add: l'_def s2'_def split: option.splits)
  have g': "gpio_base s2' = gpio_base s" using g by (simp add: s2'_def)
  have r': "\<not> running s2'" using r by (simp add: s2'_def)
  have i': "iterations (trace s2') =
       iterations (trace s) + (if poll_thread s \<noteq> Null \<and> inflight \<noteq> None then 1 else 0)"
    using i by (simp add: s2'_def split: option.splits)
  then have i'': "iterations (trace s2') \<le> iterations (trace s) + 1" by simp
  have w': "pin_writes (trace s2') =
       pin_writes (trace s) @
         (if poll_thread s \<noteq> Null \<and> inflight \<noteq> None
          then [if led then led_clear else led_set] else [])"
    using w by (simp add: s2'_def split: option.splits)
  obtain s' where e: "two_button_exit hz inflight nxt led s = Returned s'"
    and t: "trace s' = trace s2' @ led_clear # (if gpio_base s \<noteq> None then [Iounmap] else []) @
                  [Pr_info ''two_button_blink: unloaded.'' []]"
    and rs: "running s' = running s2'"
    using two_button_exit_eq [OF th g'] by blast
  have "pin_writes ((if gpio_base s \<noteq> None then [Iounmap] else []) @
                  [Pr_info ''two_button_blink: unloaded.'' []]) = []"
    by (simp add: pin_writes_def)
  from led_lit_after_clear [OF this, of "trace s2'"] t
  have "\<not> led_lit (trace s')" by simp
  with th i' i'' w' e t rs r' have "\<exists>l s2 s'.
     (if poll_thread s \<noteq> Null then kthread_stop hz inflight nxt led (s\<lparr>running := False\<rparr>)
      else Returned (led, s\<lparr>running := False\<rparr>)) = Returned (l, s2) \<and>
     l = (if poll_thread s \<noteq> Null \<and> inflight \<noteq> None then \<not> led else led) \<and>
     iterations (trace s2) =
       iterations (trace s) + (if poll_thread s \<noteq> Null \<and> inflight \<noteq> None then 1 else 0) \<and>
     iterations (trace s2) \<le> iterations (trace s) + 1 \<and>
     pin_writes (trace s2) =
       pin_writes (trace s) @
         (if poll_thread s \<noteq> Null \<and> inflight \<noteq> None
          then [if led then led_clear else led_set] else []) \<and>
     two_button_exit hz inflight nxt led s = Returned s' \<and>
     trace s' = trace s2 @ led_clear # (if gpio_base s \<noteq> None then [Iounmap] else []) @
                  [Pr_info ''two_button_blink: unloaded.'' []] \<and>
     \<not> led_lit (trace s') \<and> \<not> running s'"
    unfolding l'_def by blast
  then show ?thesis by simp
qed

text \<open>
  C4 as stated fails: \<^verbatim>\<open>poll_thread_fn\<close> does not force the output unlit before it returns.
  Stopped after one iteration it returns with the LED lit, having issued one set and no clear.
\<close>

theorem loop_returns_lit_counterexample:
  "poll_thread_fn (100 :: 64 word) [(False, at_rest), (True, at_rest)] module_globals =
     Returned (True, module_globals\<lparr>trace := [led_set, Msleep 250]\<rparr>) \<and>
   led_lit [led_set, Msleep 250] \<and>
   pin_writes [led_set, Msleep 250] = [led_set]"
  by (simp add: poll_thread_fn_def loop_body_eq poll_buttons_def check_inc_def check_dec_def
        module_globals_def emit_def Let_def gpio_read_pin_def at_rest_def
        model_consts led_lit_def pin_writes_def led_set_def)

end
